theory Spec2Isabelle
  imports Complex_Main "HOL-Library.AList"
begin

section \<open>The dataset aggregator of the campaign insight accelerator\<close>

text \<open>
  A shallow embedding of \<^verbatim>\<open>src/lib/dataLoader.ts\<close>: the session cache, the loader and the
  eight query functions, with the record types of \<^verbatim>\<open>src/lib/mockData.ts\<close>.

  Conventions of the embedding.
  \<^item> A JavaScript number read from JSON is a rational; the result of a division is a
    \<open>number\<close>, which also has the three non-finite values, so that a division by zero
    is visible in the result. Rounding to IEEE doubles is not modelled: arithmetic is exact.
  \<^item> A date string is read through \<open>getTime\<close>, the platform's
    \<^verbatim>\<open>new Date(s).getTime()\<close>, a parameter of every function that compares dates. It is
    total: the strings of the dataset are taken to be valid dates.
  \<^item> The clock (\<^verbatim>\<open>new Date()\<close>) is the parameter \<open>now\<close>, in milliseconds.
  \<^item> \<^verbatim>\<open>Math.random()\<close> reads a stream of draws that is threaded through the calls.
  \<^item> An object used as a dictionary is an association list in insertion order, which is
    the order of \<^verbatim>\<open>Object.values\<close> and \<^verbatim>\<open>Object.entries\<close> for keys that are ordinary
    names (not array indices, not properties inherited from the prototype).
  \<^item> A function that writes the cache returns the new cache beside its result.
\<close>

subsection \<open>Record types\<close>

record Campaign =
  campaign_id :: string
  name :: string
  brand :: string
  industry :: string
  type :: string
  region :: string
  start_date :: string
  end_date :: string
  budget :: rat
  status :: string
  tenant_id :: string
  created_at :: string

record PerformanceMetric =
  metric_id :: string
  campaign_id :: string
  date :: string
  roi :: rat
  brand_recall :: rat
  engagement_rate :: rat
  reach :: rat
  impressions :: rat
  clicks :: rat
  ctr :: rat
  conversion_rate :: rat
  cost_per_acquisition :: rat
  sentiment_score :: rat
  video_completion_rate :: rat
  share_rate :: rat
  save_rate :: rat
  tenant_id :: string

record CreativeAsset =
  asset_id :: string
  campaign_id :: string
  name :: string
  type :: string
  format :: string
  size_mb :: rat
  dimensions :: string
  duration_seconds :: "rat option"
  emotional_trigger :: string
  brand_integration :: string
  visual_distinctness :: rat
  text_readability :: rat
  color_harmony :: rat
  performance_score :: rat
  a_b_test_variant :: "string option"
  tenant_id :: string
  created_at :: string

datatype SensorStatus = OK | WARN | FAIL

record SensorMetadata =
  pipeline :: string
  environment :: string
  region :: string

record SensorData =
  sensor_id :: string
  sensor_type :: string
  timestamp :: string
  "value" :: rat
  status :: SensorStatus
  tenant_id :: string
  metadata :: SensorMetadata

record ModelPerformance =
  model_id :: string
  model_type :: string
  version :: string
  date :: string
  accuracy :: rat
  precision :: rat
  recall :: rat
  f1_score :: rat
  latency_ms :: rat
  throughput_rps :: rat
  training_time_hours :: rat
  training_data_size :: rat
  feature_count :: rat
  last_retrained :: string
  status :: string
  tenant_id :: string

subsection \<open>JavaScript numbers, arrays and strings\<close>

datatype number = Num rat | PosInfinity | NegInfinity | NaN

definition js_div :: "rat \<Rightarrow> rat \<Rightarrow> number" where
  \<comment> \<open>\<^verbatim>\<open>a / b\<close> for finite operands; every divisor of the aggregator is an array length or
      a counter, so a zero divisor is \<open>+0\<close>.\<close>
  "js_div a b =
     (if b \<noteq> 0 then Num (a / b)
      else if a = 0 then NaN
      else if 0 < a then PosInfinity
      else NegInfinity)"

fun on_finite :: "(rat \<Rightarrow> rat) \<Rightarrow> number \<Rightarrow> number" where
  \<comment> \<open>An operation that leaves the non-finite values as they are.\<close>
  "on_finite f (Num x) = Num (f x)"
| "on_finite f PosInfinity = PosInfinity"
| "on_finite f NegInfinity = NegInfinity"
| "on_finite f NaN = NaN"

definition round_half_up :: "rat \<Rightarrow> int" where
  \<comment> \<open>\<^verbatim>\<open>Math.round\<close> on a finite number: the nearest integer, a tie going up.\<close>
  "round_half_up x = \<lfloor>x + 1 / 2\<rfloor>"

definition Math_round :: "number \<Rightarrow> number" where
  "Math_round = on_finite (\<lambda>x. of_int (round_half_up x))"

definition fixed_digits :: "nat \<Rightarrow> rat \<Rightarrow> nat" where
  \<comment> \<open>The integer \<open>n\<close> of \<^verbatim>\<open>Number.prototype.toFixed\<close> for \<open>x \<ge> 0\<close>: \<open>n / 10^f\<close> is nearest to
      \<open>x\<close>, the larger \<open>n\<close> on a tie.\<close>
  "fixed_digits f x = nat \<lfloor>x * 10 ^ f + 1 / 2\<rfloor>"

definition Number_toFixed :: "nat \<Rightarrow> number \<Rightarrow> number" where
  \<comment> \<open>\<^verbatim>\<open>Number(x.toFixed(f))\<close>: a negative number is rendered as the minus sign and the
      digits of its absolute value; from \<open>10^21\<close> on, toFixed prints the number itself.\<close>
  "Number_toFixed f =
     on_finite (\<lambda>x. if 10 ^ 21 \<le> \<bar>x\<bar> then x
                     else if x < 0 then - (of_nat (fixed_digits f (- x)) / 10 ^ f)
                     else of_nat (fixed_digits f x) / 10 ^ f)"

fun decimal :: "nat \<Rightarrow> string" where
  \<comment> \<open>The decimal digits of a natural number; 48 is the code of the character 0.\<close>
  "decimal n =
     (if n < 10 then [char_of (48 + n)]
      else decimal (n div 10) @ [char_of (48 + n mod 10)])"

declare decimal.simps [simp del]

definition toFixed :: "nat \<Rightarrow> rat \<Rightarrow> string" where
  \<comment> \<open>\<^verbatim>\<open>x.toFixed(f)\<close> for \<open>f > 0\<close> and \<open>\<bar>x\<bar> < 10^21\<close>: the digits of \<open>n\<close>, padded with zeros to
      \<open>f + 1\<close> places, with the point before the last \<open>f\<close>.\<close>
  "toFixed f x =
     (let m = decimal (fixed_digits f \<bar>x\<bar>);
          m' = replicate (f + 1 - length m) CHR ''0'' @ m;
          k = length m'
      in (if x < 0 then ''-'' else '''') @ take (k - f) m' @ ''.'' @ drop (k - f) m')"

definition Array_slice :: "int \<Rightarrow> int option \<Rightarrow> 'a list \<Rightarrow> 'a list" where
  \<comment> \<open>\<^verbatim>\<open>xs.slice(start, end)\<close>: a negative index counts from the end of the array, and
      both are clamped to the array; an omitted end is the length.\<close>
  "Array_slice start end xs =
     (let len = int (length xs);
          k = (if start < 0 then max (len + start) 0 else min start len);
          e = (case end of None \<Rightarrow> len | Some e' \<Rightarrow> e');
          final = (if e < 0 then max (len + e) 0 else min e len)
      in take (nat (final - k)) (drop (nat k) xs))"

fun replace_first :: "char \<Rightarrow> char \<Rightarrow> string \<Rightarrow> string" where
  \<comment> \<open>\<^verbatim>\<open>s.replace(a, b)\<close> with a string pattern of one character: the first match only.\<close>
  "replace_first a b [] = []"
| "replace_first a b (c # cs) = (if c = a then b # cs else c # replace_first a b cs)"

definition upper_char :: "char \<Rightarrow> char" where
  "upper_char c =
     (let n = (of_char c :: nat) in if 97 \<le> n \<and> n \<le> 122 then char_of (n - 32) else c)"

definition toUpperCase :: "string \<Rightarrow> string" where
  \<comment> \<open>On the ASCII letters; the sensor types of the dataset are ASCII identifiers.\<close>
  "toUpperCase = map upper_char"

definition split_T_first :: "string \<Rightarrow> string" where
  \<comment> \<open>\<^verbatim>\<open>s.split('T')[0]\<close>: the text before the first \<open>T\<close>, all of it when there is none.\<close>
  "split_T_first s = takeWhile (\<lambda>c. c \<noteq> CHR ''T'') s"

subsection \<open>The source of random draws\<close>

type_synonym random_source = "(nat \<Rightarrow> rat) \<times> nat"

definition Math_random :: "random_source \<Rightarrow> rat \<times> random_source" where
  "Math_random g = (fst g (snd g), (fst g, Suc (snd g)))"

definition unit_draws :: "random_source \<Rightarrow> bool" where
  \<comment> \<open>What the platform promises of \<^verbatim>\<open>Math.random()\<close>: every draw is in \<open>[0, 1)\<close>.\<close>
  "unit_draws g \<longleftrightarrow> (\<forall>i. 0 \<le> fst g i \<and> fst g i < 1)"

subsection \<open>The cache and the loader\<close>

record DataCache =
  campaigns :: "Campaign list option"
  metrics :: "PerformanceMetric list option"
  assets :: "CreativeAsset list option"
  sensors :: "SensorData list option"
  models :: "ModelPerformance list option"
  summary :: "string option"

definition empty_cache :: DataCache where
  \<comment> \<open>\<^verbatim>\<open>let dataCache = {}\<close>: no entry is present.\<close>
  "empty_cache =
     \<lparr>DataCache.campaigns = None, DataCache.metrics = None, DataCache.assets = None,
      DataCache.sensors = None, DataCache.models = None, DataCache.summary = None\<rparr>"

datatype error = FetchError | JsonError

text \<open>
  What the network gives for one resource: \<^verbatim>\<open>fetch(url)\<close> rejects or resolves to a
  response, and \<^verbatim>\<open>response.json()\<close> rejects or resolves to the parsed value.
\<close>

type_synonym 'a response = "error + 'a"
type_synonym 'a fetched = "error + 'a response"

record Network =
  campaigns_json :: "Campaign list fetched"
  performance_metrics_json :: "PerformanceMetric list fetched"
  creative_assets_json :: "CreativeAsset list fetched"
  sensor_data_json :: "SensorData list fetched"
  model_performance_json :: "ModelPerformance list fetched"
  dataset_summary_json :: "string fetched"

definition await :: "error + 'a \<Rightarrow> ('a \<Rightarrow> error + 'b) \<Rightarrow> error + 'b" where
  "await p k = (case p of Inl e \<Rightarrow> Inl e | Inr x \<Rightarrow> k x)"

definition load_body :: "Network \<Rightarrow> error + DataCache" where
  \<comment> \<open>The body of the \<^verbatim>\<open>try\<close>: the two \<^verbatim>\<open>Promise.all\<close>, each rejecting when one of its
      promises rejects, then the new cache.\<close>
  "load_body net =
     await (campaigns_json net) (\<lambda>campaignsRes.
     await (performance_metrics_json net) (\<lambda>metricsRes.
     await (creative_assets_json net) (\<lambda>assetsRes.
     await (sensor_data_json net) (\<lambda>sensorsRes.
     await (model_performance_json net) (\<lambda>modelsRes.
     await (dataset_summary_json net) (\<lambda>summaryRes.
     await campaignsRes (\<lambda>campaigns.
     await metricsRes (\<lambda>metrics.
     await assetsRes (\<lambda>assets.
     await sensorsRes (\<lambda>sensors.
     await modelsRes (\<lambda>models.
     await summaryRes (\<lambda>summary.
       Inr \<lparr>DataCache.campaigns = Some campaigns, DataCache.metrics = Some metrics,
            DataCache.assets = Some assets, DataCache.sensors = Some sensors,
            DataCache.models = Some models, DataCache.summary = Some summary\<rparr>))))))))))))"

definition loadRealDataset :: "Network \<Rightarrow> DataCache \<Rightarrow> DataCache option \<times> DataCache" where
  \<comment> \<open>The result (\<open>None\<close> is \<^verbatim>\<open>null\<close>) and the cache after the call.\<close>
  "loadRealDataset net dataCache =
     (case load_body net of
        Inr loaded \<Rightarrow> (Some loaded, loaded)
      | Inl e \<Rightarrow> (None, dataCache))"

subsection \<open>Queries on campaigns and metrics\<close>

definition getLatestCampaigns ::
  "(string \<Rightarrow> int) \<Rightarrow> int option \<Rightarrow> DataCache \<Rightarrow> Campaign list \<times> DataCache" where
  \<comment> \<open>\<^verbatim>\<open>limit = 10\<close> when omitted. \<^verbatim>\<open>Array.prototype.sort\<close> is stable and sorts the
      cached array itself; \<^verbatim>\<open>slice\<close> copies.\<close>
  "getLatestCampaigns getTime limit dataCache =
     (case DataCache.campaigns dataCache of
        None \<Rightarrow> ([], dataCache)
      | Some cs \<Rightarrow>
          (let sorted_cs = sort_key (\<lambda>c. - getTime (Campaign.created_at c)) cs
           in (Array_slice 0 (Some (case limit of None \<Rightarrow> 10 | Some l \<Rightarrow> l)) sorted_cs,
               dataCache\<lparr>DataCache.campaigns := Some sorted_cs\<rparr>)))"

definition getCampaignMetrics ::
  "(string \<Rightarrow> int) \<Rightarrow> string \<Rightarrow> DataCache \<Rightarrow> PerformanceMetric list" where
  "getCampaignMetrics getTime campaignId dataCache =
     (case metrics dataCache of
        None \<Rightarrow> []
      | Some ms \<Rightarrow>
          sort_key (\<lambda>m. getTime (PerformanceMetric.date m))
            (filter (\<lambda>m. PerformanceMetric.campaign_id m = campaignId) ms))"

definition getActiveCampaigns :: "(string \<Rightarrow> int) \<Rightarrow> int \<Rightarrow> DataCache \<Rightarrow> Campaign list" where
  "getActiveCampaigns getTime now dataCache =
     (case DataCache.campaigns dataCache of
        None \<Rightarrow> []
      | Some cs \<Rightarrow>
          filter (\<lambda>c. Campaign.status c = ''Active''
                     \<and> getTime (start_date c) \<le> now
                     \<and> getTime (end_date c) \<ge> now) cs)"

record BrandStats =
  campaigns :: nat
  avgROI :: number
  avgEngagement :: number
  totalReach :: rat

record BrandPerformance =
  brand :: string
  campaigns :: nat
  avgROI :: number
  avgEngagement :: number
  totalReach :: rat

definition latest_metrics ::
  "(string \<Rightarrow> int) \<Rightarrow> PerformanceMetric list \<Rightarrow> Campaign \<Rightarrow> PerformanceMetric list" where
  \<comment> \<open>The metrics of the campaign, latest first, the first seven.\<close>
  "latest_metrics getTime ms campaign =
     Array_slice 0 (Some 7)
       (sort_key (\<lambda>m. - getTime (PerformanceMetric.date m))
          (filter (\<lambda>m. PerformanceMetric.campaign_id m = Campaign.campaign_id campaign) ms))"

definition brand_step ::
  "(string \<Rightarrow> int) \<Rightarrow> PerformanceMetric list \<Rightarrow> (string \<times> BrandStats) list \<Rightarrow> Campaign
     \<Rightarrow> (string \<times> BrandStats) list" where
  \<comment> \<open>The body of the \<^verbatim>\<open>forEach\<close> over the campaigns.\<close>
  "brand_step getTime ms brandStats campaign =
     (let b = Campaign.brand campaign;
          created =
            (case map_of brandStats b of
               None \<Rightarrow>
                 AList.update b
                   \<lparr>BrandStats.campaigns = 0, BrandStats.avgROI = Num 0,
                    BrandStats.avgEngagement = Num 0, BrandStats.totalReach = 0\<rparr> brandStats
             | Some s \<Rightarrow> brandStats);
          counted =
            AList.map_entry b
              (\<lambda>s. s\<lparr>BrandStats.campaigns := BrandStats.campaigns s + 1\<rparr>) created;
          campaignMetrics = latest_metrics getTime ms campaign
      in if length campaignMetrics > 0 then
           (let avgROI' =
                  js_div (foldl (\<lambda>sum m. sum + roi m) 0 campaignMetrics)
                    (of_nat (length campaignMetrics));
                avgEngagement' =
                  js_div (foldl (\<lambda>sum m. sum + engagement_rate m) 0 campaignMetrics)
                    (of_nat (length campaignMetrics));
                totalReach' = foldl (\<lambda>sum m. sum + reach m) 0 campaignMetrics
            in AList.map_entry b
                 (\<lambda>s. s\<lparr>BrandStats.avgROI := avgROI',
                        BrandStats.avgEngagement := avgEngagement',
                        BrandStats.totalReach := BrandStats.totalReach s + totalReach'\<rparr>)
                 counted)
         else counted)"

definition brand_entry :: "string \<times> BrandStats \<Rightarrow> BrandPerformance" where
  \<comment> \<open>\<^verbatim>\<open>([brand, stats]) => ({brand, ...stats})\<close>\<close>
  "brand_entry e =
     \<lparr>BrandPerformance.brand = fst e,
      BrandPerformance.campaigns = BrandStats.campaigns (snd e),
      BrandPerformance.avgROI = BrandStats.avgROI (snd e),
      BrandPerformance.avgEngagement = BrandStats.avgEngagement (snd e),
      BrandPerformance.totalReach = BrandStats.totalReach (snd e)\<rparr>"

definition getBrandPerformance :: "(string \<Rightarrow> int) \<Rightarrow> DataCache \<Rightarrow> BrandPerformance list" where
  "getBrandPerformance getTime dataCache =
     (case (DataCache.campaigns dataCache, metrics dataCache) of
        (Some cs, Some ms) \<Rightarrow> map brand_entry (foldl (brand_step getTime ms) [] cs)
      | _ \<Rightarrow> [])"

subsection \<open>Sensors and models\<close>

record SensorView =
  name :: string
  "value" :: rat
  status :: SensorStatus
  timestamp :: string
  trend :: string

definition keep_latest_sensor ::
  "(string \<Rightarrow> int) \<Rightarrow> (string \<times> SensorData) list \<Rightarrow> SensorData \<Rightarrow> (string \<times> SensorData) list" where
  \<comment> \<open>The body of the \<^verbatim>\<open>forEach\<close> over the sensors.\<close>
  "keep_latest_sensor getTime latestSensors sensor =
     (let key = sensor_type sensor
      in case map_of latestSensors key of
           None \<Rightarrow> AList.update key sensor latestSensors
         | Some kept \<Rightarrow>
             if getTime (SensorData.timestamp sensor) > getTime (SensorData.timestamp kept)
             then AList.update key sensor latestSensors
             else latestSensors)"

definition latestSensors :: "(string \<Rightarrow> int) \<Rightarrow> SensorData list \<Rightarrow> (string \<times> SensorData) list" where
  "latestSensors getTime ss = foldl (keep_latest_sensor getTime) [] ss"

definition sensor_trend :: "random_source \<Rightarrow> string \<times> random_source" where
  \<comment> \<open>\<^verbatim>\<open>Math.random() > 0.5 ? '+' : '-' + (Math.random() * 10).toFixed(1) + '%'\<close>: the
      conditional binds weaker than \<open>+\<close>, and the second draw is made in its last branch only.\<close>
  "sensor_trend g =
     (let (r, g1) = Math_random g
      in if r > 1 / 2 then (''+'', g1)
         else (let (r', g2) = Math_random g1
               in (''-'' @ toFixed 1 (r' * 10) @ ''%'', g2)))"

definition sensor_view :: "SensorData \<Rightarrow> random_source \<Rightarrow> SensorView \<times> random_source" where
  "sensor_view sensor g =
     (let (t, g') = sensor_trend g
      in (\<lparr>SensorView.name =
             toUpperCase (replace_first CHR ''_'' CHR '' '' (sensor_type sensor)),
           SensorView.value = SensorData.value sensor,
           SensorView.status = SensorData.status sensor,
           SensorView.timestamp = SensorData.timestamp sensor,
           SensorView.trend = t\<rparr>, g'))"

fun map_random :: "('a \<Rightarrow> random_source \<Rightarrow> 'b \<times> random_source) \<Rightarrow> 'a list \<Rightarrow> random_source
                     \<Rightarrow> 'b list \<times> random_source" where
  \<comment> \<open>\<^verbatim>\<open>Array.prototype.map\<close> with a callback that draws: left to right.\<close>
  "map_random f [] g = ([], g)"
| "map_random f (x # xs) g =
     (let (y, g1) = f x g; (ys, g2) = map_random f xs g1 in (y # ys, g2))"

definition getSensorStatus ::
  "(string \<Rightarrow> int) \<Rightarrow> random_source \<Rightarrow> DataCache \<Rightarrow> SensorView list \<times> random_source" where
  "getSensorStatus getTime g dataCache =
     (case sensors dataCache of
        None \<Rightarrow> ([], g)
      | Some ss \<Rightarrow> map_random sensor_view (map snd (latestSensors getTime ss)) g)"

definition keep_latest_model ::
  "(string \<Rightarrow> int) \<Rightarrow> (string \<times> ModelPerformance) list \<Rightarrow> ModelPerformance
     \<Rightarrow> (string \<times> ModelPerformance) list" where
  "keep_latest_model getTime latestModels model =
     (let key = model_type model
      in case map_of latestModels key of
           None \<Rightarrow> AList.update key model latestModels
         | Some kept \<Rightarrow>
             if getTime (ModelPerformance.date model) > getTime (ModelPerformance.date kept)
             then AList.update key model latestModels
             else latestModels)"

definition getModelPerformance :: "(string \<Rightarrow> int) \<Rightarrow> DataCache \<Rightarrow> ModelPerformance list" where
  "getModelPerformance getTime dataCache =
     (case models dataCache of
        None \<Rightarrow> []
      | Some ms \<Rightarrow> map snd (foldl (keep_latest_model getTime) [] ms))"

subsection \<open>Daily trends\<close>

record DailyStats =
  date :: string
  avgROI :: rat
  avgEngagement :: rat
  totalReach :: rat
  count :: nat

record TrendPoint =
  date :: string
  avgROI :: number
  avgEngagement :: number
  totalReach :: rat

definition ms_per_day :: int where
  "ms_per_day = 86400000"

definition cutoffDate :: "int \<Rightarrow> int \<Rightarrow> int" where
  \<comment> \<open>\<^verbatim>\<open>cutoffDate.setDate(cutoffDate.getDate() - days)\<close>: the same time of day, \<open>days\<close>
      calendar days earlier (a day of 24 hours: no change of the clock in between).\<close>
  "cutoffDate now days = now - days * ms_per_day"

definition daily_step :: "(string \<times> DailyStats) list \<Rightarrow> PerformanceMetric \<Rightarrow> (string \<times> DailyStats) list" where
  \<comment> \<open>The body of the \<^verbatim>\<open>forEach\<close> over the metrics that passed the filter.\<close>
  "daily_step dailyStats metric =
     (let dateKey = split_T_first (PerformanceMetric.date metric);
          created =
            (case map_of dailyStats dateKey of
               None \<Rightarrow>
                 AList.update dateKey
                   \<lparr>DailyStats.date = dateKey, DailyStats.avgROI = 0,
                    DailyStats.avgEngagement = 0, DailyStats.totalReach = 0, count = 0\<rparr> dailyStats
             | Some d \<Rightarrow> dailyStats)
      in AList.map_entry dateKey
           (\<lambda>d. d\<lparr>DailyStats.avgROI := DailyStats.avgROI d + roi metric,
                  DailyStats.avgEngagement := DailyStats.avgEngagement d + engagement_rate metric,
                  DailyStats.totalReach := DailyStats.totalReach d + reach metric,
                  count := count d + 1\<rparr>) created)"

definition trend_point :: "DailyStats \<Rightarrow> TrendPoint" where
  "trend_point day =
     \<lparr>TrendPoint.date = DailyStats.date day,
      TrendPoint.avgROI =
        Number_toFixed 2 (js_div (DailyStats.avgROI day) (of_nat (count day))),
      TrendPoint.avgEngagement =
        Number_toFixed 2 (js_div (DailyStats.avgEngagement day) (of_nat (count day))),
      TrendPoint.totalReach = DailyStats.totalReach day\<rparr>"

definition getPerformanceTrends ::
  "(string \<Rightarrow> int) \<Rightarrow> int \<Rightarrow> int option \<Rightarrow> DataCache \<Rightarrow> TrendPoint list" where
  \<comment> \<open>\<^verbatim>\<open>days = 30\<close> when omitted.\<close>
  "getPerformanceTrends getTime now days dataCache =
     (case metrics dataCache of
        None \<Rightarrow> []
      | Some ms \<Rightarrow>
          (let cutoff = cutoffDate now (case days of None \<Rightarrow> 30 | Some d \<Rightarrow> d);
               dailyStats =
                 foldl daily_step []
                   (filter (\<lambda>m. getTime (PerformanceMetric.date m) \<ge> cutoff) ms)
           in sort_key (\<lambda>p. getTime (TrendPoint.date p))
                (map trend_point (map snd dailyStats))))"

subsection \<open>The dashboard summary\<close>

record DashboardSummary =
  totalCampaigns :: nat
  activeCampaigns :: nat
  avgROI :: number
  avgEngagement :: number
  pipelineHealth :: number
  dataFreshness :: int
  modelAccuracy :: int
  systemLatency :: int
  totalRecords :: nat

definition or_empty :: "'a list option \<Rightarrow> 'a list" where
  \<comment> \<open>\<^verbatim>\<open>dataCache.x || []\<close>\<close>
  "or_empty xs = (case xs of None \<Rightarrow> [] | Some ys \<Rightarrow> ys)"

definition getDashboardSummary ::
  "(string \<Rightarrow> int) \<Rightarrow> int \<Rightarrow> random_source \<Rightarrow> DataCache \<Rightarrow> DashboardSummary \<times> random_source" where
  "getDashboardSummary getTime now g dataCache =
     (let campaigns = or_empty (DataCache.campaigns dataCache);
          metrics = or_empty (DataCache.metrics dataCache);
          assets = or_empty (DataCache.assets dataCache);
          sensors = or_empty (DataCache.sensors dataCache);
          activeCampaigns = getActiveCampaigns getTime now dataCache;
          recentMetrics = Array_slice (- 1000) None metrics;
          avgROI =
            (if length recentMetrics > 0
             then js_div (foldl (\<lambda>sum m. sum + roi m) 0 recentMetrics) (of_nat (length recentMetrics))
             else Num 0);
          avgEngagement =
            (if length recentMetrics > 0
             then js_div (foldl (\<lambda>sum m. sum + engagement_rate m) 0 recentMetrics)
                    (of_nat (length recentMetrics))
             else Num 0);
          (sensorStatus, g1) = getSensorStatus getTime g dataCache;
          healthysensors = length (filter (\<lambda>s. SensorView.status s = OK) sensorStatus);
          pipelineHealth =
            (if length sensorStatus > 0
             then Math_round
                    (on_finite (\<lambda>q. q * 100)
                       (js_div (of_nat healthysensors) (of_nat (length sensorStatus))))
             else Num 100);
          (r1, g2) = Math_random g1;
          (r2, g3) = Math_random g2;
          (r3, g4) = Math_random g3
      in (\<lparr>totalCampaigns = length campaigns,
           activeCampaigns = length activeCampaigns,
           avgROI = Number_toFixed 1 avgROI,
           avgEngagement = Number_toFixed 1 avgEngagement,
           pipelineHealth = pipelineHealth,
           dataFreshness = round_half_up (r1 * 5) + 95,
           modelAccuracy = round_half_up (r2 * 10) + 85,
           systemLatency = round_half_up (r3 * 100) + 100,
           totalRecords = length campaigns + length metrics + length assets + length sensors\<rparr>,
          g4))"

subsection \<open>A platform for the examples\<close>

text \<open>
  The examples read dates of the form \<^verbatim>\<open>YYYY-MM-DDTHH:MM:SS\<close> as the platform does on a host
  whose local time is UTC: the days from 1970-01-01 in the proleptic Gregorian calendar,
  and the time of day, in milliseconds.
\<close>

definition digits_at :: "string \<Rightarrow> nat \<Rightarrow> nat \<Rightarrow> int" where
  "digits_at s i n = foldl (\<lambda>a c. 10 * a + (int (of_char c) - 48)) 0 (take n (drop i s))"

definition days_from_civil :: "int \<Rightarrow> int \<Rightarrow> int \<Rightarrow> int" where
  "days_from_civil y m d =
     (let y' = (if m \<le> 2 then y - 1 else y);
          era = y' div 400;
          yoe = y' - era * 400;
          doy = (153 * ((m + 9) mod 12) + 2) div 5 + d - 1;
          doe = yoe * 365 + yoe div 4 - yoe div 100 + doy
      in era * 146097 + doe - 719468)"

definition utc_time :: "string \<Rightarrow> int" where
  "utc_time s =
     days_from_civil (digits_at s 0 4) (digits_at s 5 2) (digits_at s 8 2) * 86400000
     + (digits_at s 11 2 * 3600 + digits_at s 14 2 * 60 + digits_at s 17 2) * 1000"

definition campaign_of :: "string \<Rightarrow> string \<Rightarrow> string \<Rightarrow> Campaign" where
  "campaign_of cid b created =
     \<lparr>Campaign.campaign_id = cid, Campaign.name = b @ '' Digital 2024'',
      Campaign.brand = b, Campaign.industry = ''Fashion'', Campaign.type = ''Digital'',
      Campaign.region = ''Global'', Campaign.start_date = ''2024-01-15T00:00:00'',
      Campaign.end_date = ''2024-03-15T00:00:00'', Campaign.budget = 2500000,
      Campaign.status = ''Completed'', Campaign.tenant_id = ''tbwa'',
      Campaign.created_at = created\<rparr>"

definition metric_of :: "string \<Rightarrow> string \<Rightarrow> rat \<Rightarrow> rat \<Rightarrow> rat \<Rightarrow> PerformanceMetric" where
  \<comment> \<open>A row of a campaign for a day, with its roi, engagement rate and reach.\<close>
  "metric_of cid day r e n =
     \<lparr>PerformanceMetric.metric_id = cid @ ''/'' @ day,
      PerformanceMetric.campaign_id = cid, PerformanceMetric.date = day,
      PerformanceMetric.roi = r, PerformanceMetric.brand_recall = 0,
      PerformanceMetric.engagement_rate = e, PerformanceMetric.reach = n,
      PerformanceMetric.impressions = 0, PerformanceMetric.clicks = 0,
      PerformanceMetric.ctr = 0, PerformanceMetric.conversion_rate = 0,
      PerformanceMetric.cost_per_acquisition = 0, PerformanceMetric.sentiment_score = 0,
      PerformanceMetric.video_completion_rate = 0, PerformanceMetric.share_rate = 0,
      PerformanceMetric.save_rate = 0, PerformanceMetric.tenant_id = ''tbwa''\<rparr>"

definition sensor_of :: "string \<Rightarrow> string \<Rightarrow> rat \<Rightarrow> SensorStatus \<Rightarrow> SensorData" where
  "sensor_of ty ts v st =
     \<lparr>sensor_id = ty @ ''@'' @ ts, sensor_type = ty, SensorData.timestamp = ts,
      SensorData.value = v, SensorData.status = st, SensorData.tenant_id = ''ces'',
      metadata =
        \<lparr>pipeline = ''ces_'' @ ty @ ''_pipeline'', environment = ''production'',
         SensorMetadata.region = ''us-east-1''\<rparr>\<rparr>"

definition cache_of ::
  "Campaign list \<Rightarrow> PerformanceMetric list \<Rightarrow> SensorData list \<Rightarrow> DataCache" where
  \<comment> \<open>A loaded cache with these campaigns, metrics and sensors, and nothing else.\<close>
  "cache_of cs ms ss =
     \<lparr>DataCache.campaigns = Some cs, DataCache.metrics = Some ms, DataCache.assets = Some [],
      DataCache.sensors = Some ss, DataCache.models = Some [], DataCache.summary = Some ''{}''\<rparr>"

definition steady :: random_source where
  \<comment> \<open>The draws 0.3, 0.7, 0.9, 0.3, 0.7, 0.9, ...\<close>
  "steady =
     ((\<lambda>i. if i mod 3 = 0 then 3 / 10 else if i mod 3 = 1 then 7 / 10 else 9 / 10), 0)"

definition two_nike :: DataCache where
  \<comment> \<open>Two campaigns of one brand, the older first, each with one metric row.\<close>
  "two_nike =
     cache_of
       [campaign_of ''c1'' ''Nike'' ''2024-01-01T00:00:00'',
        campaign_of ''c2'' ''Nike'' ''2024-02-01T00:00:00'']
       [metric_of ''c1'' ''2024-03-01T00:00:00'' 2 2 10,
        metric_of ''c2'' ''2024-03-02T00:00:00'' 4 6 20]
       []"

definition three_sensors :: DataCache where
  "three_sensors =
     cache_of [] []
       [sensor_of ''api_latency'' ''2024-03-01T00:00:00'' 145 OK,
        sensor_of ''api_latency'' ''2024-03-02T00:00:00'' 310 FAIL,
        sensor_of ''data_freshness'' ''2024-03-02T00:00:00'' (95 / 100) OK,
        sensor_of ''data_freshness'' ''2024-03-01T00:00:00'' (40 / 100) WARN]"


definition two_underscores :: DataCache where
  \<comment> \<open>One sensor, whose type has two underscores.\<close>
  "two_underscores = cache_of [] [] [sensor_of ''api_latency_ms'' ''2024-03-01T00:00:00'' 145 OK]"

definition offline :: Network where
  \<comment> \<open>Every resource is unreachable.\<close>
  "offline =
     \<lparr>campaigns_json = Inl FetchError, performance_metrics_json = Inl FetchError,
      creative_assets_json = Inl FetchError, sensor_data_json = Inl FetchError,
      model_performance_json = Inl FetchError, dataset_summary_json = Inl FetchError\<rparr>"

subsection \<open>Notions the statements use\<close>

text \<open>A resource is loaded when its fetch and its parse both resolve.\<close>

definition resolved :: "'a fetched \<Rightarrow> bool" where
  "resolved r = (case r of Inr (Inr v) \<Rightarrow> True | _ \<Rightarrow> False)"

definition all_resolved :: "Network \<Rightarrow> bool" where
  "all_resolved net \<longleftrightarrow>
     resolved (campaigns_json net) \<and> resolved (performance_metrics_json net) \<and>
     resolved (creative_assets_json net) \<and> resolved (sensor_data_json net) \<and>
     resolved (model_performance_json net) \<and> resolved (dataset_summary_json net)"

text \<open>
  The rows a brand's averages are meant to range over: the seven latest rows of each of
  its campaigns, together; and the average of a list of numbers.
\<close>

definition brand_window ::
  "(string \<Rightarrow> int) \<Rightarrow> Campaign list \<Rightarrow> PerformanceMetric list \<Rightarrow> string \<Rightarrow> PerformanceMetric list" where
  "brand_window getTime cs ms b =
     concat (map (latest_metrics getTime ms) (filter (\<lambda>c. Campaign.brand c = b) cs))"

definition mean :: "rat list \<Rightarrow> number" where
  "mean xs = js_div (sum_list xs) (of_nat (length xs))"

text \<open>Replacing every occurrence of a character, as the display name is described.\<close>

definition replace_all :: "char \<Rightarrow> char \<Rightarrow> string \<Rightarrow> string" where
  "replace_all a b s = map (\<lambda>c. if c = a then b else c) s"

text \<open>
  The shape of a trend with a number: a minus sign, digits, a point, one digit and a
  percent sign.
\<close>

definition is_digit :: "char \<Rightarrow> bool" where
  "is_digit c \<longleftrightarrow> c \<in> set ''0123456789''"

definition minus_percent :: "string \<Rightarrow> bool" where
  "minus_percent s \<longleftrightarrow>
     (\<exists>ds d. s = ''-'' @ ds @ ''.'' @ [d] @ ''%''
         \<and> ds \<noteq> [] \<and> (\<forall>c\<in>set ds. is_digit c) \<and> is_digit d)"

text \<open>
  The latest reading of a sensor type: the first reading of that type whose timestamp no
  other reading of the type exceeds. The distinct sensor types, and those among them whose
  latest reading has the status \<open>OK\<close>.
\<close>

definition readings_of :: "string \<Rightarrow> SensorData list \<Rightarrow> SensorData list" where
  "readings_of t ss = filter (\<lambda>r. sensor_type r = t) ss"

definition latest_reading :: "(string \<Rightarrow> int) \<Rightarrow> SensorData list \<Rightarrow> string \<Rightarrow> SensorData option" where
  "latest_reading getTime ss t =
     find (\<lambda>r. \<forall>r'\<in>set (readings_of t ss).
                 getTime (SensorData.timestamp r') \<le> getTime (SensorData.timestamp r))
       (readings_of t ss)"



section \<open>Properties\<close>

subsection \<open>The loader\<close>

lemma load_body_failed: "\<not> all_resolved net \<Longrightarrow> \<exists>e. load_body net = Inl e"
  unfolding all_resolved_def resolved_def load_body_def await_def
  by (auto split: sum.splits)

lemma load_body_resolved: "all_resolved net \<Longrightarrow> \<exists>c. load_body net = Inr c"
  unfolding all_resolved_def resolved_def load_body_def await_def
  by (auto split: sum.splits)

lemma loadRealDataset_failed: "\<not> all_resolved net \<Longrightarrow> loadRealDataset net c = (None, c)"
  using load_body_failed[of net] by (auto simp: loadRealDataset_def)

subsection \<open>The random draws\<close>

lemma Math_random_draws: "fst (snd (Math_random g)) = fst g"
  by (simp add: Math_random_def)

lemma sensor_trend_draws: "fst (snd (sensor_trend g)) = fst g"
  by (simp add: sensor_trend_def Math_random_def split_beta Let_def)

lemma sensor_view_draws: "fst (snd (sensor_view x g)) = fst g"
  by (simp add: sensor_view_def split_beta Let_def sensor_trend_draws)

lemma map_random_draws:
  "(\<And>x g. fst (snd (f x g)) = fst g) \<Longrightarrow> fst (snd (map_random f xs g)) = fst g"
  by (induction xs arbitrary: g) (simp_all add: split_beta Let_def)

lemma getSensorStatus_draws: "fst (snd (getSensorStatus gt g c)) = fst g"
  by (simp add: getSensorStatus_def map_random_draws sensor_view_draws split: option.splits)

lemma round_half_up_bounds:
  assumes "0 \<le> r" "r < 1" "0 \<le> k"
  shows "0 \<le> round_half_up (r * of_int k)" "round_half_up (r * of_int k) \<le> k"
proof -
  have "0 \<le> r * of_int k" using assms by simp
  then show "0 \<le> round_half_up (r * of_int k)" by (simp add: round_half_up_def)
  have "r * of_int k \<le> of_int k" using assms by (simp add: mult_left_le_one_le mult.commute)
  then have "r * of_int k + 1 / 2 < of_int (k + 1)" by simp
  then have "\<lfloor>r * of_int k + 1 / 2\<rfloor> < k + 1" by (simp only: floor_less_iff)
  then show "round_half_up (r * of_int k) \<le> k" by (simp add: round_half_up_def)
qed

lemma summary_random_fields:
  "\<exists>i j k. dataFreshness (fst (getDashboardSummary gt now g c)) = round_half_up (fst g i * 5) + 95
    \<and> modelAccuracy (fst (getDashboardSummary gt now g c)) = round_half_up (fst g j * 10) + 85
    \<and> systemLatency (fst (getDashboardSummary gt now g c)) = round_half_up (fst g k * 100) + 100"
proof -
  obtain g1 where g1: "g1 = snd (getSensorStatus gt g c)" by simp
  have f: "fst g1 = fst g" using g1 getSensorStatus_draws by simp
  show ?thesis
    apply (simp add: getDashboardSummary_def Let_def split_beta Math_random_def)
    apply (fold g1)
    apply (simp add: f)
    by blast
qed

text \<open>
  C10. Whatever the cache holds and whatever \<^verbatim>\<open>Math.random()\<close> draws in \<open>[0, 1)\<close>,
  \<^verbatim>\<open>getDashboardSummary()\<close> returns \<open>dataFreshness\<close> as an integer from 95 to 100,
  \<open>modelAccuracy\<close> as an integer from 85 to 95 and \<open>systemLatency\<close> as an integer from 100
  to 200.
\<close>

theorem dashboard_random_ranges:
  assumes "unit_draws g"
  shows "95 \<le> dataFreshness (fst (getDashboardSummary gt now g c))
       \<and> dataFreshness (fst (getDashboardSummary gt now g c)) \<le> 100
       \<and> 85 \<le> modelAccuracy (fst (getDashboardSummary gt now g c))
       \<and> modelAccuracy (fst (getDashboardSummary gt now g c)) \<le> 95
       \<and> 100 \<le> systemLatency (fst (getDashboardSummary gt now g c))
       \<and> systemLatency (fst (getDashboardSummary gt now g c)) \<le> 200"
proof -
  obtain i j k where e:
    "dataFreshness (fst (getDashboardSummary gt now g c)) = round_half_up (fst g i * 5) + 95"
    "modelAccuracy (fst (getDashboardSummary gt now g c)) = round_half_up (fst g j * 10) + 85"
    "systemLatency (fst (getDashboardSummary gt now g c)) = round_half_up (fst g k * 100) + 100"
    using summary_random_fields by blast
  have u: "\<And>n. 0 \<le> fst g n \<and> fst g n < 1" using assms by (simp add: unit_draws_def)
  have a: "0 \<le> round_half_up (fst g i * 5) \<and> round_half_up (fst g i * 5) \<le> 5"
    using round_half_up_bounds[of "fst g i" 5] u[of i] by simp
  have b: "0 \<le> round_half_up (fst g j * 10) \<and> round_half_up (fst g j * 10) \<le> 10"
    using round_half_up_bounds[of "fst g j" 10] u[of j] by simp
  have d: "0 \<le> round_half_up (fst g k * 100) \<and> round_half_up (fst g k * 100) \<le> 100"
    using round_half_up_bounds[of "fst g k" 100] u[of k] by simp
  show ?thesis using e a b d by simp
qed

lemma steady_unit: "unit_draws steady"
  by (simp add: unit_draws_def steady_def)

theorem dashboard_random_ranges_witness:
  "unit_draws steady
   \<and> dataFreshness (fst (getDashboardSummary utc_time 0 steady three_sensors)) = 97
   \<and> 95 \<le> dataFreshness (fst (getDashboardSummary utc_time 0 steady three_sensors))
   \<and> dataFreshness (fst (getDashboardSummary utc_time 0 steady three_sensors)) \<le> 100"
proof -
  have v: "dataFreshness (fst (getDashboardSummary utc_time 0 steady three_sensors)) = 97"
    by code_simp
  show ?thesis
    using steady_unit dashboard_random_ranges[OF steady_unit, of utc_time 0 three_sensors] v
    by simp
qed

subsection \<open>Missing data\<close>

lemma Number_toFixed_zero: "Number_toFixed f (Num 0) = Num 0"
  by (simp add: Number_toFixed_def fixed_digits_def)

lemma Array_slice_Nil: "Array_slice a b [] = []"
  by (simp add: Array_slice_def)

text \<open>
  C7. No operation of the aggregator raises. The only failing steps, a fetch or a parse
  that rejects, are inside the \<^verbatim>\<open>try\<close> of the loader: when one of the six resources
  fails, \<^verbatim>\<open>loadRealDataset()\<close> resolves to \<^verbatim>\<open>null\<close> and leaves the cache as it was. A query
  whose cache entry is absent returns its default: the empty list, and for
  \<^verbatim>\<open>getDashboardSummary()\<close> zero totals, zero averages and a pipeline health of 100.
\<close>

theorem absent_data_defaults:
  "(\<not> all_resolved net \<longrightarrow> loadRealDataset net c = (None, c))
   \<and> (DataCache.campaigns c = None \<longrightarrow>
        getLatestCampaigns gt limit c = ([], c) \<and> getActiveCampaigns gt now c = []
        \<and> getBrandPerformance gt c = [])
   \<and> (DataCache.metrics c = None \<longrightarrow>
        getCampaignMetrics gt cid c = [] \<and> getBrandPerformance gt c = []
        \<and> getPerformanceTrends gt now days c = [])
   \<and> (DataCache.sensors c = None \<longrightarrow> getSensorStatus gt g c = ([], g))
   \<and> (DataCache.models c = None \<longrightarrow> getModelPerformance gt c = [])
   \<and> (DataCache.campaigns c = None \<and> DataCache.metrics c = None \<and> DataCache.assets c = None
        \<and> DataCache.sensors c = None \<longrightarrow>
        totalCampaigns (fst (getDashboardSummary gt now g c)) = 0
        \<and> DashboardSummary.activeCampaigns (fst (getDashboardSummary gt now g c)) = 0
        \<and> DashboardSummary.avgROI (fst (getDashboardSummary gt now g c)) = Num 0
        \<and> DashboardSummary.avgEngagement (fst (getDashboardSummary gt now g c)) = Num 0
        \<and> pipelineHealth (fst (getDashboardSummary gt now g c)) = Num 100
        \<and> totalRecords (fst (getDashboardSummary gt now g c)) = 0)"
proof -
  have 1: "\<not> all_resolved net \<longrightarrow> loadRealDataset net c = (None, c)"
    by (simp add: loadRealDataset_failed)
  have 2: "DataCache.campaigns c = None \<longrightarrow>
        getLatestCampaigns gt limit c = ([], c) \<and> getActiveCampaigns gt now c = []
        \<and> getBrandPerformance gt c = []"
    by (simp add: getLatestCampaigns_def getActiveCampaigns_def getBrandPerformance_def)
  have 3: "DataCache.metrics c = None \<longrightarrow>
        getCampaignMetrics gt cid c = [] \<and> getBrandPerformance gt c = []
        \<and> getPerformanceTrends gt now days c = []"
    by (simp add: getCampaignMetrics_def getBrandPerformance_def getPerformanceTrends_def
        split: option.splits)
  have 4: "DataCache.sensors c = None \<longrightarrow> getSensorStatus gt g c = ([], g)"
    by (simp add: getSensorStatus_def)
  have 5: "DataCache.models c = None \<longrightarrow> getModelPerformance gt c = []"
    by (simp add: getModelPerformance_def)
  have 6: "DataCache.campaigns c = None \<and> DataCache.metrics c = None \<and> DataCache.assets c = None
        \<and> DataCache.sensors c = None \<longrightarrow>
        totalCampaigns (fst (getDashboardSummary gt now g c)) = 0
        \<and> DashboardSummary.activeCampaigns (fst (getDashboardSummary gt now g c)) = 0
        \<and> DashboardSummary.avgROI (fst (getDashboardSummary gt now g c)) = Num 0
        \<and> DashboardSummary.avgEngagement (fst (getDashboardSummary gt now g c)) = Num 0
        \<and> pipelineHealth (fst (getDashboardSummary gt now g c)) = Num 100
        \<and> totalRecords (fst (getDashboardSummary gt now g c)) = 0"
    by (simp add: getDashboardSummary_def Let_def split_beta or_empty_def getActiveCampaigns_def
        getSensorStatus_def Array_slice_Nil Number_toFixed_zero)
  show ?thesis using 1 2 3 4 5 6 by blast
qed

theorem absent_data_defaults_witness:
  "\<not> all_resolved offline
   \<and> DataCache.campaigns empty_cache = None \<and> DataCache.metrics empty_cache = None
   \<and> DataCache.assets empty_cache = None \<and> DataCache.sensors empty_cache = None
   \<and> DataCache.models empty_cache = None
   \<and> loadRealDataset offline empty_cache = (None, empty_cache)
   \<and> getLatestCampaigns utc_time None empty_cache = ([], empty_cache)
   \<and> getActiveCampaigns utc_time 0 empty_cache = []
   \<and> getCampaignMetrics utc_time ''c1'' empty_cache = []
   \<and> getBrandPerformance utc_time empty_cache = []
   \<and> getPerformanceTrends utc_time 0 None empty_cache = []
   \<and> getSensorStatus utc_time steady empty_cache = ([], steady)
   \<and> getModelPerformance utc_time empty_cache = []
   \<and> totalCampaigns (fst (getDashboardSummary utc_time 0 steady empty_cache)) = 0
   \<and> totalRecords (fst (getDashboardSummary utc_time 0 steady empty_cache)) = 0
   \<and> pipelineHealth (fst (getDashboardSummary utc_time 0 steady empty_cache)) = Num 100"
proof -
  have h: "\<not> all_resolved offline"
    by (simp add: all_resolved_def resolved_def offline_def)
  have e: "DataCache.campaigns empty_cache = None" "DataCache.metrics empty_cache = None"
    "DataCache.assets empty_cache = None" "DataCache.sensors empty_cache = None"
    "DataCache.models empty_cache = None"
    by (simp_all add: empty_cache_def)
  show ?thesis
    using h e
      absent_data_defaults[of offline empty_cache utc_time None 0 "''c1''" None steady]
    by simp
qed

subsection \<open>The latest campaigns\<close>

lemma nat_max_neg: "l < 0 \<Longrightarrow> nat (max (int n + l) 0) = n - nat (- l)"
  by (simp add: max_def nat_diff_distrib' nat_add_distrib) linarith

text \<open>
  C3, as the code has it. \<^verbatim>\<open>getLatestCampaigns(limit)\<close> returns an empty list on an empty
  campaign collection, for every limit, and for the limit 0. A negative limit \<open>- k\<close> is an
  index from the end of the array in \<^verbatim>\<open>slice(0, limit)\<close>: the result is the first
  \<open>n - k\<close> of the \<open>n\<close> campaigns in descending order of creation, which is empty only when
  \<open>k \<ge> n\<close>.
\<close>

theorem latest_campaigns_limit:
  "fst (getLatestCampaigns gt limit (c\<lparr>DataCache.campaigns := Some []\<rparr>)) = []
   \<and> fst (getLatestCampaigns gt (Some 0) c) = []
   \<and> (DataCache.campaigns c = Some cs \<and> l < 0 \<longrightarrow>
        fst (getLatestCampaigns gt (Some l) c)
          = take (length cs - nat (- l)) (sort_key (\<lambda>x. - gt (Campaign.created_at x)) cs)
        \<and> length (fst (getLatestCampaigns gt (Some l) c)) = length cs - nat (- l))"
proof -
  have 1: "fst (getLatestCampaigns gt limit (c\<lparr>DataCache.campaigns := Some []\<rparr>)) = []"
    by (simp add: getLatestCampaigns_def Array_slice_def)
  have 2: "fst (getLatestCampaigns gt (Some 0) c) = []"
    by (simp add: getLatestCampaigns_def Array_slice_def split: option.splits)
  have 3: "fst (getLatestCampaigns gt (Some l) c)
          = take (length cs - nat (- l)) (sort_key (\<lambda>x. - gt (Campaign.created_at x)) cs)"
    if "DataCache.campaigns c = Some cs" "l < 0"
    using that by (simp add: getLatestCampaigns_def Array_slice_def Let_def nat_max_neg)
  show ?thesis using 1 2 3 by simp
qed

text \<open>
  An empty list for every limit below 1 is not what the code returns: at the limit \<open>- 1\<close>,
  of two campaigns the later one is returned.
\<close>

theorem latest_campaigns_limit_counterexample:
  "(- 1 :: int) \<le> 0
   \<and> fst (getLatestCampaigns utc_time (Some (- 1)) two_nike) \<noteq> []
   \<and> map Campaign.campaign_id (fst (getLatestCampaigns utc_time (Some (- 1)) two_nike)) = [''c2'']"
proof -
  have "map Campaign.campaign_id (fst (getLatestCampaigns utc_time (Some (- 1)) two_nike)) = [''c2'']"
    by code_simp
  then show ?thesis by auto
qed

theorem latest_campaigns_limit_witness:
  "DataCache.campaigns two_nike
     = Some [campaign_of ''c1'' ''Nike'' ''2024-01-01T00:00:00'',
             campaign_of ''c2'' ''Nike'' ''2024-02-01T00:00:00'']
   \<and> (- 1 :: int) < 0
   \<and> fst (getLatestCampaigns utc_time (Some (- 1)) two_nike)
       = [campaign_of ''c2'' ''Nike'' ''2024-02-01T00:00:00'']
   \<and> fst (getLatestCampaigns utc_time (Some 0) two_nike) = []"
proof -
  have h: "DataCache.campaigns two_nike
     = Some [campaign_of ''c1'' ''Nike'' ''2024-01-01T00:00:00'',
             campaign_of ''c2'' ''Nike'' ''2024-02-01T00:00:00'']"
    by (simp add: two_nike_def cache_of_def)
  have s: "take (length [campaign_of ''c1'' ''Nike'' ''2024-01-01T00:00:00'',
             campaign_of ''c2'' ''Nike'' ''2024-02-01T00:00:00''] - nat (- (- 1)))
            (sort_key (\<lambda>x. - utc_time (Campaign.created_at x))
              [campaign_of ''c1'' ''Nike'' ''2024-01-01T00:00:00'',
               campaign_of ''c2'' ''Nike'' ''2024-02-01T00:00:00''])
          = [campaign_of ''c2'' ''Nike'' ''2024-02-01T00:00:00'']"
    by code_simp
  show ?thesis
    using h s latest_campaigns_limit[of utc_time None two_nike
        "[campaign_of ''c1'' ''Nike'' ''2024-01-01T00:00:00'',
          campaign_of ''c2'' ''Nike'' ''2024-02-01T00:00:00'']" "- 1"]
    by simp
qed

text \<open>
  C2 fails on the code: \<^verbatim>\<open>getLatestCampaigns\<close> sorts the cached array itself. After the
  call the cache holds the two campaigns in the other order.
\<close>

theorem latest_campaigns_reorders_cache:
  "map Campaign.campaign_id (or_empty (DataCache.campaigns two_nike)) = [''c1'', ''c2'']
   \<and> map Campaign.campaign_id
        (or_empty (DataCache.campaigns (snd (getLatestCampaigns utc_time None two_nike))))
       = [''c2'', ''c1'']"
  by code_simp

subsection \<open>The brand rollup\<close>

text \<open>
  C1 fails on the code: each campaign that has metrics overwrites the averages of its
  brand, so the entry reports the window of the brand's last such campaign; only the
  reach is accumulated. Two campaigns of one brand with the rows (roi 2, engagement 2,
  reach 10) and (roi 4, engagement 6, reach 20) give the averages 4 and 6, where the
  averages over both windows are 3 and 4.
\<close>

theorem brand_average_of_last_campaign:
  "getBrandPerformance utc_time two_nike
     = [\<lparr>BrandPerformance.brand = ''Nike'', campaigns = 2, avgROI = Num 4,
         avgEngagement = Num 6, totalReach = 30\<rparr>]
   \<and> mean (map roi (brand_window utc_time (or_empty (DataCache.campaigns two_nike))
                      (or_empty (DataCache.metrics two_nike)) ''Nike'')) = Num 3
   \<and> mean (map engagement_rate (brand_window utc_time (or_empty (DataCache.campaigns two_nike))
                      (or_empty (DataCache.metrics two_nike)) ''Nike'')) = Num 4"
  by code_simp










subsection \<open>The daily trends\<close>









subsection \<open>The sensor status\<close>

lemma find_append: "find P (xs @ ys) = (case find P xs of Some x \<Rightarrow> Some x | None \<Rightarrow> find P ys)"
  by (induction xs) auto

lemma find_stronger:
  "find P xs = Some x \<Longrightarrow> Q x \<Longrightarrow> (\<And>y. y \<in> set xs \<Longrightarrow> Q y \<Longrightarrow> P y) \<Longrightarrow> find Q xs = Some x"
  by (induction xs) (auto split: if_splits)

lemma find_SomeD: "find P xs = Some x \<Longrightarrow> x \<in> set xs \<and> P x"
  by (induction xs) (auto split: if_splits)

lemma max_reading_exists:
  "rs \<noteq> [] \<Longrightarrow> \<exists>r\<in>set rs. \<forall>r'\<in>set rs. (f r' :: int) \<le> f r"
proof (induction rs)
  case Nil
  then show ?case by simp
next
  case (Cons a rs)
  show ?case
  proof (cases "rs = []")
    case True
    then show ?thesis by simp
  next
    case False
    then obtain r where r: "r \<in> set rs" "\<forall>r'\<in>set rs. f r' \<le> f r" using Cons.IH by blast
    show ?thesis
    proof (cases "f a \<le> f r")
      case True
      with r show ?thesis by auto
    next
      case False
      with r have "\<forall>r'\<in>set (a # rs). f r' \<le> f a" by fastforce
      then show ?thesis by auto
    qed
  qed
qed

lemma keep_latest_sensor_map_of:
  "map_of (keep_latest_sensor gt al s) t =
     (if t = sensor_type s
      then (case map_of al t of
              None \<Rightarrow> Some s
            | Some kept \<Rightarrow>
                if gt (SensorData.timestamp s) > gt (SensorData.timestamp kept) then Some s
                else Some kept)
      else map_of al t)"
  by (auto simp: keep_latest_sensor_def Let_def AList.update_conv' split: option.splits)

lemma latest_reading_snoc_other:
  "sensor_type s \<noteq> t \<Longrightarrow> latest_reading gt (ss @ [s]) t = latest_reading gt ss t"
  by (simp add: latest_reading_def readings_of_def)

lemma latest_reading_snoc_same:
  "latest_reading gt (ss @ [s]) (sensor_type s) =
     (case latest_reading gt ss (sensor_type s) of
        None \<Rightarrow> Some s
      | Some kept \<Rightarrow>
          if gt (SensorData.timestamp s) > gt (SensorData.timestamp kept) then Some s
          else Some kept)"
proof -
  define rs where "rs = readings_of (sensor_type s) ss"
  define f where "f = (\<lambda>r :: SensorData. gt (SensorData.timestamp r))"
  define P where "P = (\<lambda>r. \<forall>r'\<in>set rs. f r' \<le> f r)"
  define P' where "P' = (\<lambda>r. \<forall>r'\<in>set (rs @ [s]). f r' \<le> f r)"
  have old: "latest_reading gt ss (sensor_type s) = find P rs"
    by (simp add: latest_reading_def rs_def P_def f_def)
  have new: "latest_reading gt (ss @ [s]) (sensor_type s) = find P' (rs @ [s])"
    by (simp add: latest_reading_def readings_of_def rs_def P'_def f_def)
  have P'P: "P' r \<longleftrightarrow> P r \<and> f s \<le> f r" for r
    by (auto simp: P_def P'_def)
  show ?thesis
  proof (cases "find P rs")
    case None
    have "rs = []"
    proof (rule ccontr)
      assume "rs \<noteq> []"
      from max_reading_exists[OF this, of f] have "\<exists>r\<in>set rs. P r" by (simp add: P_def)
      with None show False by (simp add: find_None_iff)
    qed
    then have "find P' (rs @ [s]) = Some s" by (simp add: P'_def)
    with None old new show ?thesis by simp
  next
    case (Some kept)
    then have k: "kept \<in> set rs" "P kept" using find_SomeD by fastforce+
    show ?thesis
    proof (cases "f s > f kept")
      case True
      have "\<not> P' r" if "r \<in> set rs" for r
      proof
        assume "P' r"
        then have "f s \<le> f r" by (simp add: P'P)
        moreover have "f r \<le> f kept" using k(2) that by (simp add: P_def)
        ultimately show False using True by simp
      qed
      then have "find P' rs = None" by (simp add: find_None_iff)
      moreover have "P' s" using k(2) True by (fastforce simp: P'_def P_def)
      ultimately have "find P' (rs @ [s]) = Some s" by (simp add: find_append)
      with Some True old new show ?thesis by (simp add: f_def)
    next
      case False
      then have "P' kept" using k(2) by (simp add: P'P)
      then have "find P' rs = Some kept"
        using find_stronger[OF Some, of P'] by (simp add: P'P)
      then have "find P' (rs @ [s]) = Some kept" by (simp add: find_append)
      with Some False old new show ?thesis by (simp add: f_def)
    qed
  qed
qed

lemma latestSensors_snoc:
  "latestSensors gt (ss @ [s]) = keep_latest_sensor gt (latestSensors gt ss) s"
  by (simp add: latestSensors_def)

lemma latestSensors_map_of: "map_of (latestSensors gt ss) t = latest_reading gt ss t"
proof (induction ss rule: rev_induct)
  case Nil
  then show ?case by (simp add: latestSensors_def latest_reading_def readings_of_def)
next
  case (snoc s ss)
  show ?case
  proof (cases "t = sensor_type s")
    case True
    then show ?thesis
      using snoc by (simp add: latestSensors_snoc keep_latest_sensor_map_of latest_reading_snoc_same)
  next
    case False
    then show ?thesis
      using snoc by (simp add: latestSensors_snoc keep_latest_sensor_map_of latest_reading_snoc_other)
  qed
qed

lemma keep_latest_sensor_keys:
  "fst ` set (keep_latest_sensor gt al s) = insert (sensor_type s) (fst ` set al)"
proof (cases "map_of al (sensor_type s)")
  case None
  then show ?thesis by (simp add: keep_latest_sensor_def Let_def AList.dom_update)
next
  case (Some kept)
  then have "sensor_type s \<in> fst ` set al" by (metis domI dom_map_of_conv_image_fst)
  with Some show ?thesis
    by (auto simp: keep_latest_sensor_def Let_def AList.dom_update)
qed

lemma keep_latest_sensor_distinct:
  "distinct (map fst al) \<Longrightarrow> distinct (map fst (keep_latest_sensor gt al s))"
  by (simp add: keep_latest_sensor_def Let_def AList.distinct_update split: option.splits)

lemma latestSensors_keys: "fst ` set (latestSensors gt ss) = sensor_type ` set ss"
  by (induction ss rule: rev_induct)
     (simp_all add: latestSensors_snoc keep_latest_sensor_keys, simp add: latestSensors_def)

lemma latestSensors_distinct: "distinct (map fst (latestSensors gt ss))"
  by (induction ss rule: rev_induct)
     (simp_all add: latestSensors_snoc keep_latest_sensor_distinct, simp add: latestSensors_def)










text \<open>
  What \<^verbatim>\<open>getSensorStatus()\<close> returns, apart from the trends: one entry for each distinct sensor
  type, with the value, status and timestamp of the latest reading of that type, and with
  the name made from the type by \<^verbatim>\<open>replace\<close> and \<^verbatim>\<open>toUpperCase\<close>.
\<close>

lemma map_random_sensor_view_fields:
  "map (\<lambda>v. (SensorView.name v, SensorView.value v, SensorView.status v, SensorView.timestamp v))
       (fst (map_random sensor_view xs g))
   = map (\<lambda>r. (toUpperCase (replace_first CHR ''_'' CHR '' '' (sensor_type r)),
               SensorData.value r, SensorData.status r, SensorData.timestamp r)) xs"
  by (induction xs arbitrary: g) (simp_all add: split_beta sensor_view_def)

lemma sensor_status_entries:
  assumes "DataCache.sensors c = Some ss"
  shows "distinct (map fst (latestSensors gt ss))
       \<and> fst ` set (latestSensors gt ss) = sensor_type ` set ss
       \<and> (\<forall>(t, r)\<in>set (latestSensors gt ss). latest_reading gt ss t = Some r \<and> sensor_type r = t)
       \<and> map (\<lambda>v. (SensorView.name v, SensorView.value v, SensorView.status v,
                     SensorView.timestamp v))
              (fst (getSensorStatus gt g c))
          = map (\<lambda>(t, r). (toUpperCase (replace_first CHR ''_'' CHR '' '' t),
                            SensorData.value r, SensorData.status r,
                            SensorData.timestamp r)) (latestSensors gt ss)"
proof -
  let ?al = "latestSensors gt ss"
  have d: "distinct (map fst ?al)" by (rule latestSensors_distinct)
  have e: "latest_reading gt ss t = Some r \<and> sensor_type r = t" if "(t, r) \<in> set ?al" for t r
  proof -
    from that d have "map_of ?al t = Some r" by simp
    then have l: "latest_reading gt ss t = Some r" by (simp add: latestSensors_map_of)
    then have "r \<in> set (readings_of t ss)"
      unfolding latest_reading_def using find_SomeD by fastforce
    then show ?thesis using l by (simp add: readings_of_def)
  qed
  have f: "map (\<lambda>v. (SensorView.name v, SensorView.value v, SensorView.status v,
                        SensorView.timestamp v))
                 (fst (getSensorStatus gt g c))
             = map (\<lambda>(t, r). (toUpperCase (replace_first CHR ''_'' CHR '' '' t),
                               SensorData.value r, SensorData.status r,
                               SensorData.timestamp r)) ?al"
    using assms e
    by (auto simp: getSensorStatus_def map_random_sensor_view_fields)
  show ?thesis
    using d e f latestSensors_keys[of gt ss] by auto
qed

text \<open>
  C8 fails on the code: \<^verbatim>\<open>replace('_', ' ')\<close> with a string pattern replaces the first
  underscore only. The sensor type \<^verbatim>\<open>api_latency_ms\<close> is shown as \<^verbatim>\<open>API LATENCY_MS\<close>.
\<close>

theorem sensor_name_first_underscore:
  "map SensorView.name (fst (getSensorStatus utc_time steady two_underscores)) = [''API LATENCY_MS'']
   \<and> toUpperCase (replace_all CHR ''_'' CHR '' '' ''api_latency_ms'') = ''API LATENCY MS''"
  by code_simp

lemma digit_char: "(d::nat) < 10 \<Longrightarrow> is_digit (char_of (48 + d))"
proof -
  assume "d < 10"
  then have "d \<in> {0, 1, 2, 3, 4, 5, 6, 7, 8, 9}" by auto
  then show ?thesis
    by (elim insertE emptyE; hypsubst; code_simp)
qed

lemma decimal_digits: "decimal n \<noteq> [] \<and> (\<forall>c\<in>set (decimal n). is_digit c)"
proof (induction n rule: decimal.induct)
  case (1 n)
  show ?case
  proof (cases "n < 10")
    case True
    then show ?thesis by (subst decimal.simps, subst decimal.simps) (simp add: digit_char)
  next
    case False
    have "n mod 10 < 10" by simp
    then have "is_digit (char_of (48 + n mod 10))" by (rule digit_char)
    with False 1 show ?thesis
      by (subst decimal.simps, subst (2) decimal.simps) auto
  qed
qed

lemma singleton_of_length: "length ys = 1 \<Longrightarrow> \<exists>d. ys = [d]"
  by (cases ys) auto

lemma toFixed_1_format:
  assumes "0 \<le> x"
  shows "\<exists>ds d. toFixed 1 x = ds @ ''.'' @ [d] \<and> ds \<noteq> [] \<and> (\<forall>c\<in>set ds. is_digit c) \<and> is_digit d"
proof -
  define m where "m = decimal (fixed_digits 1 \<bar>x\<bar>)"
  define m' where "m' = replicate (1 + 1 - length m) CHR ''0'' @ m"
  have z: "is_digit CHR ''0''" by (simp add: is_digit_def)
  have m: "m \<noteq> []" "\<forall>c\<in>set m. is_digit c" using decimal_digits by (simp_all add: m_def)
  have len: "2 \<le> length m'" by (simp add: m'_def)
  have all: "\<forall>c\<in>set m'. is_digit c" using m z by (auto simp: m'_def)
  have nx: "\<not> x < 0" using assms by simp
  have t: "toFixed 1 x = take (length m' - 1) m' @ ''.'' @ drop (length m' - 1) m'"
    unfolding toFixed_def Let_def m'_def m_def by (simp only: nx if_False append_Nil)
  have "length (drop (length m' - 1) m') = 1" using len by simp
  then obtain d where d: "drop (length m' - 1) m' = [d]"
    using singleton_of_length by blast
  then have "d \<in> set m'" by (metis in_set_dropD list.set_intros(1))
  then have dd: "is_digit d" using all by simp
  have ne: "take (length m' - 1) m' \<noteq> []" using len by auto
  have ta: "\<forall>c\<in>set (take (length m' - 1) m'). is_digit c"
    using all by (meson in_set_takeD)
  show ?thesis using t d dd ne ta by auto
qed

lemma sensor_trend_format:
  assumes "unit_draws g"
  shows "fst (sensor_trend g) = ''+'' \<or> minus_percent (fst (sensor_trend g))"
proof (cases "fst g (snd g) > 1 / 2")
  case True
  then show ?thesis by (simp add: sensor_trend_def Math_random_def)
next
  case False
  have "0 \<le> fst g (Suc (snd g)) * 10" using assms by (simp add: unit_draws_def)
  from toFixed_1_format[OF this] obtain ds d where
    "toFixed 1 (fst g (Suc (snd g)) * 10) = ds @ ''.'' @ [d]" "ds \<noteq> []"
    "\<forall>c\<in>set ds. is_digit c" "is_digit d" by blast
  with False show ?thesis
    by (simp add: sensor_trend_def Math_random_def minus_percent_def)
qed

lemma sensor_trend_unit: "unit_draws g \<Longrightarrow> unit_draws (snd (sensor_trend g))"
  using sensor_trend_draws[of g] by (simp add: unit_draws_def)

lemma map_random_sensor_view_trend:
  "unit_draws g \<Longrightarrow>
   \<forall>v\<in>set (fst (map_random sensor_view xs g)). trend v = ''+'' \<or> minus_percent (trend v)"
proof (induction xs arbitrary: g)
  case Nil
  then show ?case by simp
next
  case (Cons x xs)
  have h: "trend (fst (sensor_view x g)) = ''+'' \<or> minus_percent (trend (fst (sensor_view x g)))"
    using sensor_trend_format[OF Cons.prems] by (simp add: sensor_view_def split_beta)
  have "snd (sensor_view x g) = snd (sensor_trend g)"
    by (simp add: sensor_view_def split_beta)
  then have "unit_draws (snd (sensor_view x g))"
    using sensor_trend_unit[OF Cons.prems] by simp
  from Cons.IH[OF this] h show ?case by (simp add: split_beta)
qed

text \<open>
  C9. Whatever the sensors and whatever \<^verbatim>\<open>Math.random()\<close> draws in \<open>[0, 1)\<close>, the trend of
  every entry of \<^verbatim>\<open>getSensorStatus()\<close> is either the one character \<^verbatim>\<open>+\<close>, with no number, or
  a minus sign followed by a decimal number with one digit after the point and a percent
  sign.
\<close>

theorem sensor_trend_strings:
  assumes "unit_draws g"
  shows "\<forall>v\<in>set (fst (getSensorStatus gt g c)).
           trend v = ''+''
           \<or> (\<exists>ds d. trend v = ''-'' @ ds @ ''.'' @ [d] @ ''%''
                 \<and> ds \<noteq> [] \<and> (\<forall>x\<in>set ds. is_digit x) \<and> is_digit d)"
proof (cases "DataCache.sensors c")
  case None
  then show ?thesis by (simp add: getSensorStatus_def)
next
  case (Some ss)
  then show ?thesis
    using map_random_sensor_view_trend[OF assms, of "map snd (latestSensors gt ss)"]
    by (simp add: getSensorStatus_def minus_percent_def)
qed

theorem sensor_trend_strings_witness:
  "unit_draws steady
   \<and> map trend (fst (getSensorStatus utc_time steady three_sensors)) = [''-7.0%'', ''+'']
   \<and> list_all (\<lambda>v. trend v = ''+''
           \<or> (\<exists>ds d. trend v = ''-'' @ ds @ ''.'' @ [d] @ ''%''
                 \<and> ds \<noteq> [] \<and> (\<forall>x\<in>set ds. is_digit x) \<and> is_digit d))
        (fst (getSensorStatus utc_time steady three_sensors))"
proof -
  have v: "map trend (fst (getSensorStatus utc_time steady three_sensors)) = [''-7.0%'', ''+'']"
    by code_simp
  have a: "list_all (\<lambda>v. trend v = ''+''
           \<or> (\<exists>ds d. trend v = ''-'' @ ds @ ''.'' @ [d] @ ''%''
                 \<and> ds \<noteq> [] \<and> (\<forall>x\<in>set ds. is_digit x) \<and> is_digit d))
        (fst (getSensorStatus utc_time steady three_sensors))"
    using sensor_trend_strings[OF steady_unit, of utc_time three_sensors]
    by (simp only: list_all_iff)
  show ?thesis using steady_unit v a by simp
qed

end
